theory Spec2Isabelle
  imports Complex_Main "HOL-Library.Sublist"
begin

section \<open>Python values\<close>

text \<open>
  The values that travel between the model, the chat client and the tools are the
  values of Python's \<^verbatim>\<open>json\<close> module: \<^verbatim>\<open>None\<close>, booleans, integers, floats, strings,
  lists and dictionaries with string keys. A dictionary is kept as an association list
  in insertion order. A finite float is carried as the rational number it denotes.
\<close>

datatype pyval =
    PNone
  | PBool bool
  | PInt int
  | PFloat rat
  | PStr string
  | PList "pyval list"
  | PDict "(string \<times> pyval) list"

text \<open>Python's truth value of an object, as \<^verbatim>\<open>if x\<close>, \<^verbatim>\<open>not x\<close> and \<^verbatim>\<open>x or y\<close> read it.\<close>

fun truthy :: "pyval \<Rightarrow> bool" where
  "truthy PNone = False"
| "truthy (PBool b) = b"
| "truthy (PInt n) = (n \<noteq> 0)"
| "truthy (PFloat r) = (r \<noteq> 0)"
| "truthy (PStr s) = (s \<noteq> [])"
| "truthy (PList xs) = (xs \<noteq> [])"
| "truthy (PDict kvs) = (kvs \<noteq> [])"

text \<open>\<^verbatim>\<open>a or b\<close> on values, and on strings (\<^verbatim>\<open>first.content or ""\<close>).\<close>

definition py_or :: "pyval \<Rightarrow> pyval \<Rightarrow> pyval" where
  "py_or a b = (if truthy a then a else b)"

definition str_or :: "string \<Rightarrow> string \<Rightarrow> string" where
  "str_or a b = (if a \<noteq> [] then a else b)"

text \<open>
  Exceptions are values. \<^verbatim>\<open>KeyError\<close> is the one exception the client's own code raises
  (a dictionary subscript with a missing key); \<^verbatim>\<open>Raised\<close> is an exception raised inside an
  external call (the model endpoint or a tool), with its message.
\<close>

datatype py_exn = KeyError string | Raised string

text \<open>
  The two functions of the \<^verbatim>\<open>json\<close> module that \<^verbatim>\<open>client1.py\<close> calls are library code
  and are taken as parameters: \<^verbatim>\<open>loads\<close> gives \<open>None\<close> where \<^verbatim>\<open>json.loads\<close> raises, and
  \<^verbatim>\<open>dumps\<close> is total on the values above.
\<close>

record json_lib =
  loads :: "string \<Rightarrow> pyval option"
  dumps :: "pyval \<Rightarrow> string"

section \<open>The chat client (client1.py)\<close>

subsection \<open>Messages, tools and the session state\<close>

text \<open>
  A tool call is the dictionary \<^verbatim>\<open>{"name": ..., "args": ..., "id": ...}\<close> of an assistant
  message's \<^verbatim>\<open>tool_calls\<close>. The field \<open>tc_args\<close> is what \<^verbatim>\<open>tc.get("args")\<close> returns, so a
  missing key is \<open>PNone\<close>.
\<close>

record tool_call =
  tc_name :: string
  tc_args :: pyval
  tc_id :: string

text \<open>An \<^verbatim>\<open>AIMessage\<close>, as far as the client reads it: its content and its tool calls.\<close>

record ai_message =
  content :: string
  tool_calls :: "tool_call list"

text \<open>
  The entries of \<^verbatim>\<open>st.session_state.history\<close>. A \<^verbatim>\<open>ToolMessage\<close> holds its
  \<^verbatim>\<open>tool_call_id\<close> and then its content.
\<close>

datatype msg =
    SystemMessage string
  | HumanMessage string
  | AIMessage ai_message
  | ToolMessage string string

text \<open>
  Calls that leave the process (the model endpoint, a tool of an MCP server) may change
  the world outside and may raise. They are functions of a world state \<open>'w\<close> that return
  the exception or the value, and the new world.
\<close>

type_synonym ('w, 'a) ext = "'w \<Rightarrow> (py_exn + 'a) \<times> 'w"

text \<open>A tool as \<^verbatim>\<open>client.get_tools()\<close> returns it: \<^verbatim>\<open>t.name\<close> and \<^verbatim>\<open>t.ainvoke(args)\<close>.\<close>

record 'w tool =
  tool_name :: string
  ainvoke :: "pyval \<Rightarrow> ('w, pyval) ext"

text \<open>A chat model: \<^verbatim>\<open>ainvoke(history)\<close> returns an \<^verbatim>\<open>AIMessage\<close> or raises.\<close>

type_synonym 'w model = "msg list \<Rightarrow> ('w, ai_message) ext"

record 'w session_state =
  llm :: "'w model"
  tools :: "'w tool list"
  tool_by_name :: "string \<rightharpoonup> 'w tool"
  llm_with_tools :: "'w model"
  history :: "msg list"

definition SYSTEM_PROMPT :: string where
  "SYSTEM_PROMPT =
     ''You have access to tools. When you choose to call a tool, do not narrate status updates. '' @
     ''After tools run, return only a concise final answer.''"

subsection \<open>One-time initialisation (lines 44 to 67)\<close>

text \<open>
  The dictionary comprehension \<^verbatim>\<open>{t.name: t for t in tools}\<close>: the tools are stored one
  after the other, each under its name, a later one replacing an earlier one of the
  same name.
\<close>

fun dict_by_name :: "(string \<rightharpoonup> 'w tool) \<Rightarrow> 'w tool list \<Rightarrow> (string \<rightharpoonup> 'w tool)" where
  "dict_by_name d [] = d"
| "dict_by_name d (t # ts) = dict_by_name (d(tool_name t \<mapsto> t)) ts"

text \<open>
  The model object, the result of \<^verbatim>\<open>bind_tools\<close> and the tools of the MCP client come
  from libraries and servers and are parameters.
\<close>

definition init_session :: "'w model \<Rightarrow> 'w model \<Rightarrow> 'w tool list \<Rightarrow> 'w session_state" where
  "init_session the_llm bound ts =
     \<lparr>llm = the_llm,
      tools = ts,
      tool_by_name = dict_by_name Map.empty ts,
      llm_with_tools = bound,
      history = [SystemMessage SYSTEM_PROMPT]\<rparr>"

subsection \<open>Rendering the history (lines 69 to 80)\<close>

text \<open>A chat bubble: the role given to \<^verbatim>\<open>st.chat_message\<close> and the markdown text.\<close>

type_synonym bubble = "string \<times> string"

fun render :: "msg list \<Rightarrow> bubble list" where
  "render [] = []"
| "render (HumanMessage c # rest) = (''user'', c) # render rest"
| "render (AIMessage m # rest) =
     (if tool_calls m \<noteq> [] then render rest
      else (''assistant'', content m) # render rest)"
| "render (SystemMessage c # rest) = render rest"
| "render (ToolMessage i c # rest) = render rest"

text \<open>
  The render view in the words of the specification: the entries that are shown are
  the user messages and the assistant messages without pending calls, each as its role
  and text, in the stored order.
\<close>

fun shown :: "msg \<Rightarrow> bool" where
  "shown (HumanMessage c) = True"
| "shown (AIMessage m) = (tool_calls m = [])"
| "shown (SystemMessage c) = False"
| "shown (ToolMessage i c) = False"

fun bubble_of :: "msg \<Rightarrow> bubble" where
  "bubble_of (HumanMessage c) = (''user'', c)"
| "bubble_of (AIMessage m) = (''assistant'', content m)"
| "bubble_of (SystemMessage c) = (''system'', c)"
| "bubble_of (ToolMessage i c) = (''tool'', c)"

definition render_spec :: "msg list \<Rightarrow> bubble list" where
  "render_spec h = map bubble_of (filter shown h)"

subsection \<open>The chat turn (lines 84 to 125)\<close>

text \<open>\<^verbatim>\<open>history.append(m)\<close> and \<^verbatim>\<open>history.extend(ms)\<close> on the session state.\<close>

definition append_history :: "'w session_state \<Rightarrow> msg \<Rightarrow> 'w session_state" where
  "append_history st m = st\<lparr>history := history st @ [m]\<rparr>"

definition extend_history :: "'w session_state \<Rightarrow> msg list \<Rightarrow> 'w session_state" where
  "extend_history st ms = st\<lparr>history := history st @ ms\<rparr>"

text \<open>
  Lines 109 to 114: \<^verbatim>\<open>args = tc.get("args") or {}\<close>, then a string is given to
  \<^verbatim>\<open>json.loads\<close> and kept as it is when that raises.
\<close>

definition prepare_args :: "json_lib \<Rightarrow> tool_call \<Rightarrow> pyval" where
  "prepare_args js tc =
     (let args = py_or (tc_args tc) (PDict []) in
      case args of
        PStr s \<Rightarrow> (case loads js s of Some v \<Rightarrow> v | None \<Rightarrow> args)
      | _ \<Rightarrow> args)"

text \<open>
  Lines 106 to 117, the loop over the requested calls with its accumulator
  \<^verbatim>\<open>tool_msgs\<close>. The subscript \<^verbatim>\<open>tool_by_name[name]\<close> raises \<^verbatim>\<open>KeyError\<close> for a name that
  is not a key, and an exception of \<^verbatim>\<open>tool.ainvoke\<close> is not caught: both leave the loop
  at once, and the accumulator, a local variable, is lost.
\<close>

fun run_tool_calls ::
  "json_lib \<Rightarrow> (string \<rightharpoonup> 'w tool) \<Rightarrow> tool_call list \<Rightarrow> msg list \<Rightarrow> ('w, msg list) ext" where
  "run_tool_calls js reg [] tool_msgs w = (Inr tool_msgs, w)"
| "run_tool_calls js reg (tc # tcs) tool_msgs w =
     (let args = prepare_args js tc in
      case reg (tc_name tc) of
        None \<Rightarrow> (Inl (KeyError (tc_name tc)), w)
      | Some t \<Rightarrow>
          (case ainvoke t args w of
             (Inl e, w') \<Rightarrow> (Inl e, w')
           | (Inr res, w') \<Rightarrow>
               run_tool_calls js reg tcs (tool_msgs @ [ToolMessage (tc_id tc) (dumps js res)]) w'))"

text \<open>
  What one run of the chat handler leaves behind: the exception that ended it (if any),
  the session state, the world, and the bubbles it drew. The session state is a mutable
  object, so what was appended before an exception stays appended.
\<close>

record 'w run =
  outcome :: "py_exn option"
  session :: "'w session_state"
  world :: 'w
  drawn :: "bubble list"

text \<open>
  The handler. \<^verbatim>\<open>st.chat_input\<close> returns \<^verbatim>\<open>None\<close> or the text; the two \<^verbatim>\<open>print\<close> calls
  write to the log only and are left out.
\<close>

definition chat_turn :: "json_lib \<Rightarrow> string option \<Rightarrow> 'w session_state \<Rightarrow> 'w \<Rightarrow> 'w run" where
  "chat_turn js user_text st w =
     (case user_text of
        None \<Rightarrow> \<lparr>outcome = None, session = st, world = w, drawn = []\<rparr>
      | Some text \<Rightarrow>
          (if text = [] then \<lparr>outcome = None, session = st, world = w, drawn = []\<rparr>
           else
             (let ui = [(''user'', text)];
                  st1 = append_history st (HumanMessage text)
              in (case llm_with_tools st1 (history st1) w of
                    (Inl e, w1) \<Rightarrow> \<lparr>outcome = Some e, session = st1, world = w1, drawn = ui\<rparr>
                  | (Inr first, w1) \<Rightarrow>
                      (if tool_calls first = [] then
                         \<lparr>outcome = None,
                          session = append_history st1 (AIMessage first),
                          world = w1,
                          drawn = ui @ [(''assistant'', str_or (content first) [])]\<rparr>
                       else
                         (let st2 = append_history st1 (AIMessage first)
                          in (case run_tool_calls js (tool_by_name st2) (tool_calls first) [] w1 of
                                (Inl e, w2) \<Rightarrow>
                                  \<lparr>outcome = Some e, session = st2, world = w2, drawn = ui\<rparr>
                              | (Inr tool_msgs, w2) \<Rightarrow>
                                  (let st3 = extend_history st2 tool_msgs
                                   in (case llm st3 (history st3) w2 of
                                         (Inl e, w3) \<Rightarrow>
                                           \<lparr>outcome = Some e, session = st3, world = w3,
                                            drawn = ui\<rparr>
                                       | (Inr final, w3) \<Rightarrow>
                                           \<lparr>outcome = None,
                                            session = append_history st3
                                              (AIMessage \<lparr>content = str_or (content final) [],
                                                          tool_calls = []\<rparr>),
                                            world = w3,
                                            drawn = ui @
                                              [(''assistant'', str_or (content final) [])]\<rparr>)))))))))"

text \<open>
  A tool message answers a tool call when it carries the call's id as its
  \<^verbatim>\<open>tool_call_id\<close>.
\<close>

fun answers :: "tool_call \<Rightarrow> msg \<Rightarrow> bool" where
  "answers tc (ToolMessage i c) = (i = tc_id tc)"
| "answers tc (SystemMessage c) = False"
| "answers tc (HumanMessage c) = False"
| "answers tc (AIMessage m) = False"

section \<open>The time tracker (main.py)\<close>

subsection \<open>The database\<close>

text \<open>
  The three tables of \<^verbatim>\<open>init_db\<close>, each a list of rows in insertion order (the table
  \<^verbatim>\<open>notes\<close> is the field \<open>note_rows\<close>). The ids are
  \<^verbatim>\<open>INTEGER PRIMARY KEY AUTOINCREMENT\<close>: SQLite keeps, for each table, the largest id it
  has ever given (the table \<^verbatim>\<open>sqlite_sequence\<close>), and a new row gets that number plus
  one.
\<close>

record category_row =
  cat_id :: int
  cat_name :: string
  cat_color :: string
  cat_created_at :: string

record session_row =
  ses_id :: int
  ses_activity :: string
  ses_minutes :: int
  ses_category_id :: int
  ses_session_date :: string
  ses_created_at :: string

record note_row =
  note_id :: int
  note_session_id :: int
  note_content :: string
  note_created_at :: string

record db =
  categories :: "category_row list"
  sessions :: "session_row list"
  note_rows :: "note_row list"
  seq_categories :: int
  seq_sessions :: int
  seq_notes :: int

text \<open>
  What the functions read from outside the database: the date of \<^verbatim>\<open>date.today()\<close>, the
  \<^verbatim>\<open>CURRENT_TIMESTAMP\<close> of the database, and whether a step of the SQLite library
  raises (\<open>fails\<close> gives the exception's message). An exception inside
  \<^verbatim>\<open>with sqlite3.connect(...) as c\<close> rolls the transaction back.
\<close>

datatype sql_step = Connect | SelectCategory | InsertSession | InsertNote | Commit

record sqlite_env =
  today :: string
  now :: string
  fails :: "sql_step \<Rightarrow> string option"

definition empty_db :: db where
  "empty_db =
     \<lparr>categories = [], sessions = [], note_rows = [],
      seq_categories = 0, seq_sessions = 0, seq_notes = 0\<rparr>"

definition default_categories :: "(string \<times> string) list" where
  "default_categories =
     [(''Work'', ''#3B82F6''),
      (''Study'', ''#8B5CF6''),
      (''Exercise'', ''#10B981''),
      (''Reading'', ''#F59E0B''),
      (''Creative'', ''#EC4899''),
      (''Social'', ''#06B6D4''),
      (''Other'', ''#6B7280'')]"

definition insert_category :: "sqlite_env \<Rightarrow> string \<times> string \<Rightarrow> db \<Rightarrow> db" where
  "insert_category env nc d =
     (let new_id = seq_categories d + 1
      in d\<lparr>categories := categories d @
             [\<lparr>cat_id = new_id, cat_name = fst nc, cat_color = snd nc,
               cat_created_at = now env\<rparr>],
           seq_categories := new_id\<rparr>)"

text \<open>
  \<^verbatim>\<open>init_db\<close>: the tables exist in every \<open>db\<close>, so only the default categories are left
  to insert, and only into an empty \<^verbatim>\<open>categories\<close> table.
\<close>

definition init_db :: "sqlite_env \<Rightarrow> db \<Rightarrow> db" where
  "init_db env d =
     (if length (categories d) = 0 then fold (insert_category env) default_categories d
      else d)"

subsection \<open>add_session (lines 105 to 161)\<close>

definition error_dict :: "string \<Rightarrow> pyval" where
  "error_dict m = PDict [(''status'', PStr ''error''), (''message'', PStr m)]"

text \<open>
  \<^verbatim>\<open>round(minutes / 60, 2)\<close>. For an integer number of minutes the quotient is never
  halfway between two hundredths, so rounding to the nearest hundredth is the floor of
  \<open>100 * minutes / 60 + 1 / 2\<close>, which is \<open>(10 * minutes + 3) div 6\<close> hundredths. The
  float of the result is carried as this rational number, which holds as long as the
  float quotient is exact to the hundredth.
\<close>

definition hours_of :: "int \<Rightarrow> rat" where
  "hours_of mins = Fract ((10 * mins + 3) div 6) 100"

definition insert_note :: "sqlite_env \<Rightarrow> int \<Rightarrow> string \<Rightarrow> db \<Rightarrow> db" where
  "insert_note env sid text d =
     (let new_id = seq_notes d + 1
      in d\<lparr>note_rows := note_rows d @
             [\<lparr>note_id = new_id, note_session_id = sid, note_content = text,
               note_created_at = now env\<rparr>],
           seq_notes := new_id\<rparr>)"

text \<open>
  The function returns its dictionary and the database it leaves. \<open>session_date\<close> is
  \<open>None\<close> for the default \<^verbatim>\<open>None\<close>. Every exception is caught by
  \<^verbatim>\<open>except Exception as e\<close> after the rollback, so the database of an error is the one
  the call started with.
\<close>

definition add_session ::
  "sqlite_env \<Rightarrow> string \<Rightarrow> int \<Rightarrow> string \<Rightarrow> string option \<Rightarrow> string \<Rightarrow> db \<Rightarrow> pyval \<times> db" where
  "add_session env activity mins category session_date note d =
     (if mins \<le> 0 then (error_dict ''Minutes must be positive'', d)
      else
        (let sd = (case session_date of None \<Rightarrow> today env | Some x \<Rightarrow> x)
         in (case fails env Connect of
               Some e \<Rightarrow> (error_dict e, d)
             | None \<Rightarrow>
           (case fails env SelectCategory of
               Some e \<Rightarrow> (error_dict e, d)
             | None \<Rightarrow>
           (case find (\<lambda>r. cat_name r = category) (categories d) of
               None \<Rightarrow>
                 (error_dict (''Category '' @ [CHR 0x27] @ category @ [CHR 0x27] @
                    '' not found. Use add_category() first.''), d)
             | Some r \<Rightarrow>
           (case fails env InsertSession of
               Some e \<Rightarrow> (error_dict e, d)
             | None \<Rightarrow>
           (let category_id = cat_id r;
                session_id = seq_sessions d + 1;
                d1 = d\<lparr>sessions := sessions d @
                       [\<lparr>ses_id = session_id, ses_activity = activity, ses_minutes = mins,
                         ses_category_id = category_id, ses_session_date = sd,
                         ses_created_at = now env\<rparr>],
                     seq_sessions := session_id\<rparr>
            in (case (if note \<noteq> [] then fails env InsertNote else None) of
                  Some e \<Rightarrow> (error_dict e, d)
                | None \<Rightarrow>
              (let d2 = (if note \<noteq> [] then insert_note env session_id note d1 else d1)
               in (case fails env Commit of
                     Some e \<Rightarrow> (error_dict e, d)
                   | None \<Rightarrow>
                       (PDict [(''status'', PStr ''success''),
                               (''id'', PInt session_id),
                               (''activity'', PStr activity),
                               (''minutes'', PInt mins),
                               (''hours'', PFloat (hours_of mins)),
                               (''category'', PStr category),
                               (''date'', PStr sd)], d2)))))))))))"

section \<open>Example sessions\<close>

text \<open>
  Concrete tools, models and databases on which the theorems below are evaluated. The
  world of the examples is the log of the tool invocations made so far, each with the
  tool's name and the arguments it received.
\<close>

type_synonym call_log = "(string \<times> pyval) list"

definition num_arg :: "pyval \<Rightarrow> string \<Rightarrow> rat option" where
  "num_arg args k =
     (case args of
        PDict kvs \<Rightarrow>
          (case map_of kvs k of
             Some (PInt n) \<Rightarrow> Some (of_int n)
           | Some (PFloat r) \<Rightarrow> Some r
           | _ \<Rightarrow> None)
      | _ \<Rightarrow> None)"

text \<open>The tools \<^verbatim>\<open>add\<close> and \<^verbatim>\<open>divide\<close> of calculator.py, seen from the client.\<close>

definition add_tool :: "call_log tool" where
  "add_tool =
     \<lparr>tool_name = ''add'',
      ainvoke = (\<lambda>args w.
        ((case (num_arg args ''a'', num_arg args ''b'') of
            (Some a, Some b) \<Rightarrow> Inr (PFloat (a + b))
          | _ \<Rightarrow> Inl (Raised ''invalid arguments'')),
         w @ [(''add'', args)]))\<rparr>"

definition divide_tool :: "call_log tool" where
  "divide_tool =
     \<lparr>tool_name = ''divide'',
      ainvoke = (\<lambda>args w.
        ((case (num_arg args ''a'', num_arg args ''b'') of
            (Some a, Some b) \<Rightarrow>
              (if b = 0 then Inl (Raised ''Division by zero is not allowed'')
               else Inr (PFloat (a / b)))
          | _ \<Rightarrow> Inl (Raised ''invalid arguments'')),
         w @ [(''divide'', args)]))\<rparr>"

text \<open>A tool that returns the arguments it was given.\<close>

definition echo_tool :: "call_log tool" where
  "echo_tool =
     \<lparr>tool_name = ''echo'',
      ainvoke = (\<lambda>args w. (Inr args, w @ [(''echo'', args)]))\<rparr>"

text \<open>A second tool registered under the name \<^verbatim>\<open>add\<close>, by another provider.\<close>

definition other_add_tool :: "call_log tool" where
  "other_add_tool =
     \<lparr>tool_name = ''add'',
      ainvoke = (\<lambda>args w. (Inr (PStr ''other''), w @ [(''other add'', args)]))\<rparr>"

text \<open>
  Stand-ins for \<^verbatim>\<open>json.loads\<close> and \<^verbatim>\<open>json.dumps\<close> on the few texts and values of the
  examples: \<^verbatim>\<open>[12, 30]\<close> is JSON, every other text is not.
\<close>

definition example_json :: json_lib where
  "example_json =
     \<lparr>loads = (\<lambda>s. if s = ''[12, 30]'' then Some (PList [PInt 12, PInt 30]) else None),
      dumps = (\<lambda>v. if v = PFloat 42 then ''42.0''
                    else if v = PList [PInt 12, PInt 30] then ''[12, 30]''
                    else ''null'')\<rparr>"

text \<open>Models: one that requests the given calls, one that answers, one that is down.\<close>

definition requesting :: "tool_call list \<Rightarrow> call_log model" where
  "requesting tcs = (\<lambda>h w. (Inr \<lparr>content = [], tool_calls = tcs\<rparr>, w))"

definition answering :: "string \<Rightarrow> tool_call list \<Rightarrow> call_log model" where
  "answering c tcs = (\<lambda>h w. (Inr \<lparr>content = c, tool_calls = tcs\<rparr>, w))"

definition unavailable :: "call_log model" where
  "unavailable = (\<lambda>h w. (Inl (Raised ''model unavailable''), w))"

definition call_add :: tool_call where
  "call_add =
     \<lparr>tc_name = ''add'', tc_args = PDict [(''a'', PInt 12), (''b'', PInt 30)], tc_id = ''a''\<rparr>"

definition call_divide :: tool_call where
  "call_divide =
     \<lparr>tc_name = ''divide'', tc_args = PDict [(''a'', PInt 1), (''b'', PInt 0)], tc_id = ''b''\<rparr>"

definition call_moon :: tool_call where
  "call_moon = \<lparr>tc_name = ''fly_to_moon'', tc_args = PDict [], tc_id = ''m''\<rparr>"

definition call_echo :: "pyval \<Rightarrow> tool_call" where
  "call_echo a = \<lparr>tc_name = ''echo'', tc_args = a, tc_id = ''e''\<rparr>"

definition example_tools :: "call_log tool list" where
  "example_tools = [add_tool, divide_tool, echo_tool]"

definition example_session :: "call_log model \<Rightarrow> call_log model \<Rightarrow> call_log session_state" where
  "example_session proposer finalizer = init_session finalizer proposer example_tools"

definition example_env :: sqlite_env where
  "example_env = \<lparr>today = ''2025-01-15'', now = ''2025-01-15 10:00:00'', fails = (\<lambda>s. None)\<rparr>"

definition example_db :: db where
  "example_db = init_db example_env empty_db"

section \<open>Helper lemmas\<close>

lemmas example_defs =
  example_session_def init_session_def example_tools_def add_tool_def divide_tool_def
  echo_tool_def other_add_tool_def example_json_def requesting_def answering_def
  unavailable_def call_add_def call_divide_def call_moon_def call_echo_def num_arg_def
  prepare_args_def py_or_def str_or_def append_history_def extend_history_def

lemma find_app:
  "find P (xs @ ys) = (case find P xs of None \<Rightarrow> find P ys | Some x \<Rightarrow> Some x)"
  by (induction xs) simp_all

text \<open>The loop over a list of calls is the loop over its front, then over its rest.\<close>

lemma run_tool_calls_append:
  "run_tool_calls js reg (pre @ rest) acc w =
     (case run_tool_calls js reg pre acc w of
        (Inl e, w') \<Rightarrow> (Inl e, w')
      | (Inr ms, w') \<Rightarrow> run_tool_calls js reg rest ms w')"
  by (induction pre arbitrary: acc w) (auto split: option.splits prod.splits sum.splits)

text \<open>A loop that completes has added one answer per call, in the order of the calls.\<close>

lemma run_tool_calls_results:
  "run_tool_calls js reg tcs acc w = (Inr ms, w') \<Longrightarrow>
     \<exists>new. ms = acc @ new \<and> list_all2 answers tcs new"
proof (induction tcs arbitrary: acc w)
  case Nil
  then show ?case by simp
next
  case (Cons tc tcs)
  then show ?case
    by (fastforce split: option.splits prod.splits sum.splits)
qed

text \<open>A call to a name that is not registered keeps the loop from completing.\<close>

lemma run_tool_calls_missing:
  "tc \<in> set tcs \<Longrightarrow> reg (tc_name tc) = None \<Longrightarrow>
     \<exists>e. fst (run_tool_calls js reg tcs acc w) = Inl e"
  by (induction tcs arbitrary: acc w) (auto split: option.splits prod.splits sum.splits)

text \<open>The dictionary comprehension holds, for each name, the last tool of that name.\<close>

lemma dict_by_name_find:
  "dict_by_name d ts n =
     (case find (\<lambda>t. tool_name t = n) (rev ts) of None \<Rightarrow> d n | Some t \<Rightarrow> Some t)"
  by (induction ts arbitrary: d) (auto simp: find_app split: option.splits)

text \<open>
  The handler on a request with tool calls, in one equation: the three ways it can end
  and the history of each.
\<close>

lemma chat_turn_tools:
  assumes "text \<noteq> []"
    and "llm_with_tools st (history st @ [HumanMessage text]) w = (Inr first, w1)"
    and "tool_calls first \<noteq> []"
  shows "chat_turn js (Some text) st w =
    (case run_tool_calls js (tool_by_name st) (tool_calls first) [] w1 of
       (Inl e, w2) \<Rightarrow>
         \<lparr>outcome = Some e,
          session = st\<lparr>history := history st @ [HumanMessage text, AIMessage first]\<rparr>,
          world = w2, drawn = [(''user'', text)]\<rparr>
     | (Inr tool_msgs, w2) \<Rightarrow>
         (case llm st (history st @ [HumanMessage text, AIMessage first] @ tool_msgs) w2 of
            (Inl e, w3) \<Rightarrow>
              \<lparr>outcome = Some e,
               session = st\<lparr>history :=
                 history st @ [HumanMessage text, AIMessage first] @ tool_msgs\<rparr>,
               world = w3, drawn = [(''user'', text)]\<rparr>
          | (Inr final, w3) \<Rightarrow>
              \<lparr>outcome = None,
               session = st\<lparr>history :=
                 history st @ [HumanMessage text, AIMessage first] @ tool_msgs @
                 [AIMessage \<lparr>content = str_or (content final) [], tool_calls = []\<rparr>]\<rparr>,
               world = w3,
               drawn = [(''user'', text), (''assistant'', str_or (content final) [])]\<rparr>))"
  using assms
  by (simp add: chat_turn_def append_history_def extend_history_def Let_def
      split: prod.splits sum.splits)

section \<open>The render view\<close>

text \<open>
  Claim C7. The bubbles drawn from a history are exactly its user messages and its
  assistant messages without tool calls, each with its role and text, in the stored
  order: an assistant message with tool calls, a tool message and a system message are
  never drawn. The loop of the script computes the view \<open>render_spec\<close>, written after
  the specification, and the view is a function of the stored list alone.
\<close>

theorem render_view: "render h = render_spec h"
  by (induction h rule: render.induct) (simp_all add: render_spec_def)

theorem render_view_witness:
  "render [SystemMessage SYSTEM_PROMPT, HumanMessage ''what is 12 plus 30?'',
           AIMessage \<lparr>content = [], tool_calls = [call_add]\<rparr>,
           ToolMessage ''a'' ''42.0'',
           AIMessage \<lparr>content = ''42'', tool_calls = []\<rparr>]
   = [(''user'', ''what is 12 plus 30?''), (''assistant'', ''42'')]"
  using render_view [of "[SystemMessage SYSTEM_PROMPT, HumanMessage ''what is 12 plus 30?'',
           AIMessage \<lparr>content = [], tool_calls = [call_add]\<rparr>,
           ToolMessage ''a'' ''42.0'',
           AIMessage \<lparr>content = ''42'', tool_calls = []\<rparr>]"]
  by (simp add: render_spec_def)

section \<open>The tool registry\<close>

text \<open>
  Claim C9. When several tools of the list bear the same name, the registry built at
  initialisation maps the name to the last of them: a tool after which no tool of the
  same name follows is the one stored under its name. The registry is a function of
  the list, so the same list gives the same registry.
\<close>

theorem registry_last_wins:
  assumes "ts = pre @ t # post"
    and "\<forall>u \<in> set post. tool_name u \<noteq> tool_name t"
  shows "tool_by_name (init_session the_llm bound ts) (tool_name t) = Some t"
proof -
  have "find (\<lambda>u. tool_name u = tool_name t) (rev post) = None"
    using assms(2) by (simp add: find_None_iff)
  then show ?thesis
    using assms(1) by (simp add: init_session_def dict_by_name_find find_app)
qed

theorem registry_last_wins_witness:
  "tool_by_name (init_session unavailable unavailable
      [add_tool, divide_tool, other_add_tool, echo_tool]) ''add'' = Some other_add_tool"
proof -
  have "\<forall>u \<in> set [echo_tool]. tool_name u \<noteq> tool_name other_add_tool"
    by (simp add: echo_tool_def other_add_tool_def)
  from registry_last_wins [of "[add_tool, divide_tool, other_add_tool, echo_tool]"
      "[add_tool, divide_tool]" other_add_tool "[echo_tool]", OF _ this]
  show ?thesis by (simp add: other_add_tool_def)
qed

section \<open>add_session rejects without writing\<close>

text \<open>
  Claim C10. A call of \<^verbatim>\<open>add_session\<close> with \<open>minutes \<le> 0\<close>, or with a category name that
  no row of the categories table bears, returns a dictionary with status
  \<^verbatim>\<open>"error"\<close> and a message, and leaves the database as it was: no session row and no
  note row is inserted.
\<close>

theorem add_session_rejects:
  assumes "mins \<le> 0 \<or> category \<notin> cat_name ` set (categories d)"
  shows "\<exists>m. add_session env activity mins category session_date note d =
    (PDict [(''status'', PStr ''error''), (''message'', PStr m)], d)"
proof (cases "mins \<le> 0")
  case True
  then show ?thesis by (simp add: add_session_def error_dict_def)
next
  case False
  with assms have "find (\<lambda>r. cat_name r = category) (categories d) = None"
    by (auto simp: find_None_iff)
  with False show ?thesis
    by (simp add: add_session_def error_dict_def Let_def split: option.splits)
qed

theorem add_session_rejects_witness:
  "(\<exists>m. add_session example_env ''Team meeting'' 0 ''Work'' None ''kickoff'' example_db
        = (PDict [(''status'', PStr ''error''), (''message'', PStr m)], example_db)) \<and>
   (\<exists>m. add_session example_env ''Chess'' 45 ''Gaming'' None ''blitz'' example_db
        = (PDict [(''status'', PStr ''error''), (''message'', PStr m)], example_db))"
proof -
  have "''Gaming'' \<notin> cat_name ` set (categories example_db)"
    by (simp add: example_db_def init_db_def empty_db_def default_categories_def
        insert_category_def)
  then show ?thesis
    using add_session_rejects [of 0 "''Work''" example_db example_env "''Team meeting''"
        None "''kickoff''"]
      add_session_rejects [of 45 "''Gaming''" example_db example_env "''Chess''"
        None "''blitz''"]
    by simp
qed

section \<open>The history is append-only\<close>

text \<open>
  Claim C8. The two operations by which the handler changes the history, append and
  extend, leave the old history as a prefix of the new one, and so does a whole run of
  the handler, however it ends: nothing that was stored is changed, moved or removed.
\<close>

theorem history_append_only:
  "prefix (history st) (history (append_history st m)) \<and>
   prefix (history st) (history (extend_history st ms)) \<and>
   prefix (history st) (history (session (chat_turn js user_text st w)))"
  by (simp add: chat_turn_def append_history_def extend_history_def Let_def
      split: option.splits prod.splits sum.splits)

theorem history_append_only_witness:
  "prefix [SystemMessage SYSTEM_PROMPT]
     (history (session (chat_turn example_json (Some ''divide'')
        (example_session (requesting [call_divide]) (answering ''done'' [])) [])))"
  using history_append_only [of "example_session (requesting [call_divide]) (answering ''done'' [])"
      "HumanMessage ''divide''" "[]" example_json "Some ''divide''" "[]"]
  by (simp add: example_session_def init_session_def)

section \<open>A model call that fails\<close>

text \<open>
  Claim C4. When the model call of the first pass raises, the handler ends with that
  exception and the history is the old one with the user message appended. When the
  model call of the final pass raises, the handler ends with that exception and the
  history is the old one with the user message, the assistant message that carries the
  tool calls, and the tool messages appended. In both cases no assistant message is
  appended for the failed call and the old entries stay as they were.
\<close>

theorem model_failure_keeps_history:
  assumes "text \<noteq> []"
  shows "(llm_with_tools st (history st @ [HumanMessage text]) w = (Inl e, w1) \<longrightarrow>
      chat_turn js (Some text) st w =
        \<lparr>outcome = Some e,
         session = st\<lparr>history := history st @ [HumanMessage text]\<rparr>,
         world = w1, drawn = [(''user'', text)]\<rparr>) \<and>
    (llm_with_tools st (history st @ [HumanMessage text]) w = (Inr first, w1) \<and>
     tool_calls first \<noteq> [] \<and>
     run_tool_calls js (tool_by_name st) (tool_calls first) [] w1 = (Inr tool_msgs, w2) \<and>
     llm st (history st @ [HumanMessage text, AIMessage first] @ tool_msgs) w2 = (Inl e, w3) \<longrightarrow>
      chat_turn js (Some text) st w =
        \<lparr>outcome = Some e,
         session = st\<lparr>history := history st @ [HumanMessage text, AIMessage first] @ tool_msgs\<rparr>,
         world = w3, drawn = [(''user'', text)]\<rparr>)"
proof (intro conjI impI)
  assume "llm_with_tools st (history st @ [HumanMessage text]) w = (Inl e, w1)"
  with assms show "chat_turn js (Some text) st w =
        \<lparr>outcome = Some e,
         session = st\<lparr>history := history st @ [HumanMessage text]\<rparr>,
         world = w1, drawn = [(''user'', text)]\<rparr>"
    by (simp add: chat_turn_def append_history_def)
next
  assume "llm_with_tools st (history st @ [HumanMessage text]) w = (Inr first, w1) \<and>
     tool_calls first \<noteq> [] \<and>
     run_tool_calls js (tool_by_name st) (tool_calls first) [] w1 = (Inr tool_msgs, w2) \<and>
     llm st (history st @ [HumanMessage text, AIMessage first] @ tool_msgs) w2 = (Inl e, w3)"
  with assms show "chat_turn js (Some text) st w =
        \<lparr>outcome = Some e,
         session = st\<lparr>history := history st @ [HumanMessage text, AIMessage first] @ tool_msgs\<rparr>,
         world = w3, drawn = [(''user'', text)]\<rparr>"
    by (simp add: chat_turn_tools)
qed

theorem model_failure_keeps_history_witness:
  "chat_turn example_json (Some ''hello'') (example_session unavailable (answering ''42'' [])) []
     = \<lparr>outcome = Some (Raised ''model unavailable''),
        session = (example_session unavailable (answering ''42'' []))
          \<lparr>history := [SystemMessage SYSTEM_PROMPT, HumanMessage ''hello'']\<rparr>,
        world = [], drawn = [(''user'', ''hello'')]\<rparr> \<and>
   chat_turn example_json (Some ''what is 12 plus 30?'')
      (example_session (requesting [call_add]) unavailable) []
     = \<lparr>outcome = Some (Raised ''model unavailable''),
        session = (example_session (requesting [call_add]) unavailable)
          \<lparr>history := [SystemMessage SYSTEM_PROMPT, HumanMessage ''what is 12 plus 30?'',
             AIMessage \<lparr>content = [], tool_calls = [call_add]\<rparr>,
             ToolMessage ''a'' ''42.0'']\<rparr>,
        world = [(''add'', tc_args call_add)], drawn = [(''user'', ''what is 12 plus 30?'')]\<rparr>"
proof -
  let ?s1 = "example_session unavailable (answering ''42'' [])"
  let ?s2 = "example_session (requesting [call_add]) unavailable"
  let ?first = "\<lparr>content = [], tool_calls = [call_add]\<rparr>"
  let ?log = "[(''add'', tc_args call_add)]"
  let ?e = "Raised ''model unavailable''"
  have n1: "''hello'' \<noteq> []" and n2: "''what is 12 plus 30?'' \<noteq> []" by simp_all
  have p: "llm_with_tools ?s1 (history ?s1 @ [HumanMessage ''hello'']) [] = (Inl ?e, [])"
    by (simp add: example_defs)
  have f: "llm_with_tools ?s2 (history ?s2 @ [HumanMessage ''what is 12 plus 30?'']) []
       = (Inr ?first, []) \<and>
     tool_calls ?first \<noteq> [] \<and>
     run_tool_calls example_json (tool_by_name ?s2) (tool_calls ?first) [] []
       = (Inr [ToolMessage ''a'' ''42.0''], ?log) \<and>
     llm ?s2 (history ?s2 @ [HumanMessage ''what is 12 plus 30?'', AIMessage ?first] @
       [ToolMessage ''a'' ''42.0'']) ?log = (Inl ?e, ?log)"
    by (simp add: example_defs)
  from model_failure_keeps_history [OF n1, THEN conjunct1, THEN mp, OF p]
    model_failure_keeps_history [OF n2, THEN conjunct2, THEN mp, OF f]
  show ?thesis by (simp add: example_defs)
qed

section \<open>The final answer carries no tool calls\<close>

text \<open>
  Claim C5. In a turn that reaches the final model call and gets a response, the
  assistant message appended as the answer has the content of the response and no
  tool calls, whatever tool calls the response itself carries.
\<close>

theorem final_answer_no_calls:
  assumes "text \<noteq> []"
    and "llm_with_tools st (history st @ [HumanMessage text]) w = (Inr first, w1)"
    and "tool_calls first \<noteq> []"
    and "run_tool_calls js (tool_by_name st) (tool_calls first) [] w1 = (Inr tool_msgs, w2)"
    and "llm st (history st @ [HumanMessage text, AIMessage first] @ tool_msgs) w2 = (Inr final, w3)"
  shows "outcome (chat_turn js (Some text) st w) = None \<and>
    history (session (chat_turn js (Some text) st w)) =
      history st @ [HumanMessage text, AIMessage first] @ tool_msgs @
      [AIMessage \<lparr>content = str_or (content final) [], tool_calls = []\<rparr>]"
  using assms by (simp add: chat_turn_tools)

theorem final_answer_no_calls_witness:
  "outcome (chat_turn example_json (Some ''what is 12 plus 30?'')
      (example_session (requesting [call_add]) (answering ''42'' [call_add])) []) = None \<and>
   history (session (chat_turn example_json (Some ''what is 12 plus 30?'')
      (example_session (requesting [call_add]) (answering ''42'' [call_add])) [])) =
     [SystemMessage SYSTEM_PROMPT, HumanMessage ''what is 12 plus 30?'',
      AIMessage \<lparr>content = [], tool_calls = [call_add]\<rparr>,
      ToolMessage ''a'' ''42.0'',
      AIMessage \<lparr>content = ''42'', tool_calls = []\<rparr>]"
proof -
  let ?st = "example_session (requesting [call_add]) (answering ''42'' [call_add])"
  let ?first = "\<lparr>content = [], tool_calls = [call_add]\<rparr>"
  let ?final = "\<lparr>content = ''42'', tool_calls = [call_add]\<rparr>"
  let ?log = "[(''add'', tc_args call_add)]"
  have h1: "''what is 12 plus 30?'' \<noteq> []" by simp
  have h2: "llm_with_tools ?st (history ?st @ [HumanMessage ''what is 12 plus 30?'']) []
     = (Inr ?first, [])"
    by (simp add: example_defs)
  have h3: "tool_calls ?first \<noteq> []" by simp
  have h4: "run_tool_calls example_json (tool_by_name ?st) (tool_calls ?first) [] []
     = (Inr [ToolMessage ''a'' ''42.0''], ?log)"
    by (simp add: example_defs)
  have h5: "llm ?st (history ?st @ [HumanMessage ''what is 12 plus 30?'', AIMessage ?first] @
       [ToolMessage ''a'' ''42.0'']) ?log = (Inr ?final, ?log)"
    by (simp add: example_defs)
  from final_answer_no_calls [OF h1 h2 h3 h4 h5]
  show ?thesis by (simp add: example_defs)
qed

section \<open>Tool calls and their results\<close>

text \<open>
  Against claim C1 as stated. The model requests \<^verbatim>\<open>add\<close> and then \<^verbatim>\<open>fly_to_moon\<close>, which
  is not registered. The turn ends with the \<^verbatim>\<open>KeyError\<close> of the lookup, and the history
  holds the assistant message with its two tool calls and no tool message at all: the
  result of \<^verbatim>\<open>add\<close>, kept in the local list, is lost.
\<close>

theorem pending_calls_unanswered_counterexample:
  "outcome (chat_turn example_json (Some ''add, then fly'')
      (example_session (requesting [call_add, call_moon]) (answering ''done'' [])) [])
     = Some (KeyError ''fly_to_moon'') \<and>
   history (session (chat_turn example_json (Some ''add, then fly'')
      (example_session (requesting [call_add, call_moon]) (answering ''done'' [])) []))
     = [SystemMessage SYSTEM_PROMPT, HumanMessage ''add, then fly'',
        AIMessage \<lparr>content = [], tool_calls = [call_add, call_moon]\<rparr>]"
  by (simp add: chat_turn_def example_defs)

text \<open>
  Claim C1, amended. In a turn whose first response carries tool calls and whose tool
  loop runs to its end (every requested name is registered and no invocation raises),
  there is exactly one tool message per requested call, in the order of the requests,
  the message at each position carrying the id of the request at that position; these
  messages are appended to the history right after the assistant message that carries
  the calls, and only the final assistant message, if any, follows them.
\<close>

theorem tool_results_in_request_order:
  assumes "text \<noteq> []"
    and "llm_with_tools st (history st @ [HumanMessage text]) w = (Inr first, w1)"
    and "tool_calls first \<noteq> []"
    and "run_tool_calls js (tool_by_name st) (tool_calls first) [] w1 = (Inr tool_msgs, w2)"
  shows "list_all2 answers (tool_calls first) tool_msgs \<and>
    (\<exists>rest. history (session (chat_turn js (Some text) st w)) =
       history st @ [HumanMessage text, AIMessage first] @ tool_msgs @ rest \<and>
       (rest = [] \<or> (\<exists>c. rest = [AIMessage \<lparr>content = c, tool_calls = []\<rparr>])))"
proof -
  from run_tool_calls_results [OF assms(4)]
  have "list_all2 answers (tool_calls first) tool_msgs" by simp
  moreover have "\<exists>rest. history (session (chat_turn js (Some text) st w)) =
       history st @ [HumanMessage text, AIMessage first] @ tool_msgs @ rest \<and>
       (rest = [] \<or> (\<exists>c. rest = [AIMessage \<lparr>content = c, tool_calls = []\<rparr>]))"
    using assms by (simp add: chat_turn_tools split: prod.splits sum.splits)
  ultimately show ?thesis by simp
qed

theorem tool_results_in_request_order_witness:
  "list_all2 answers [call_add, call_echo (PStr ''hi'')]
     [ToolMessage ''a'' ''42.0'', ToolMessage ''e'' ''null''] \<and>
   history (session (chat_turn example_json (Some ''add and echo'')
      (example_session (requesting [call_add, call_echo (PStr ''hi'')]) (answering ''done'' [])) []))
     = [SystemMessage SYSTEM_PROMPT, HumanMessage ''add and echo'',
        AIMessage \<lparr>content = [], tool_calls = [call_add, call_echo (PStr ''hi'')]\<rparr>,
        ToolMessage ''a'' ''42.0'', ToolMessage ''e'' ''null'',
        AIMessage \<lparr>content = ''done'', tool_calls = []\<rparr>]"
proof -
  let ?st = "example_session (requesting [call_add, call_echo (PStr ''hi'')]) (answering ''done'' [])"
  let ?first = "\<lparr>content = [], tool_calls = [call_add, call_echo (PStr ''hi'')]\<rparr>"
  have h1: "''add and echo'' \<noteq> []" by simp
  have h2: "llm_with_tools ?st (history ?st @ [HumanMessage ''add and echo'']) [] = (Inr ?first, [])"
    by (simp add: example_defs)
  have h3: "tool_calls ?first \<noteq> []" by simp
  have h4: "run_tool_calls example_json (tool_by_name ?st) (tool_calls ?first) [] []
     = (Inr [ToolMessage ''a'' ''42.0'', ToolMessage ''e'' ''null''],
        [(''add'', tc_args call_add), (''echo'', PStr ''hi'')])"
    by (simp add: example_defs)
  from tool_results_in_request_order [OF h1 h2 h3 h4]
  show ?thesis by (simp add: chat_turn_def example_defs)
qed

section \<open>A tool that is not registered\<close>

text \<open>
  Against claim C2 as stated. The model requests \<^verbatim>\<open>fly_to_moon\<close>, which is not in the
  registry. The handler ends with \<^verbatim>\<open>KeyError\<close>: no tool message is appended, no result
  marked as an error is made, and no final answer is appended or drawn.
\<close>

theorem unknown_tool_aborts_counterexample:
  "chat_turn example_json (Some ''fly me to the moon'')
      (example_session (requesting [call_moon]) (answering ''done'' [])) []
   = \<lparr>outcome = Some (KeyError ''fly_to_moon''),
      session = (example_session (requesting [call_moon]) (answering ''done'' []))
        \<lparr>history := [SystemMessage SYSTEM_PROMPT, HumanMessage ''fly me to the moon'',
           AIMessage \<lparr>content = [], tool_calls = [call_moon]\<rparr>]\<rparr>,
      world = [],
      drawn = [(''user'', ''fly me to the moon'')]\<rparr>"
  by (simp add: chat_turn_def example_defs)

text \<open>
  Claim C2, amended. In a turn in which the model requests a tool whose name is not in
  the registry, the handler ends with an exception and without a final answer: the
  history gains the user message and the assistant message that carries the calls, and
  nothing else. When the calls before the unknown one have all returned, the exception
  is the \<^verbatim>\<open>KeyError\<close> of the lookup of that name, and the world is as those calls left
  it: no later call is invoked.
\<close>

theorem unknown_tool_raises_key_error:
  assumes "text \<noteq> []"
    and "llm_with_tools st (history st @ [HumanMessage text]) w = (Inr first, w1)"
    and "tool_calls first = pre @ tc # post"
    and "tool_by_name st (tc_name tc) = None"
  shows "(\<exists>e. outcome (chat_turn js (Some text) st w) = Some e) \<and>
    history (session (chat_turn js (Some text) st w)) =
      history st @ [HumanMessage text, AIMessage first] \<and>
    (\<forall>ms w2. run_tool_calls js (tool_by_name st) pre [] w1 = (Inr ms, w2) \<longrightarrow>
       outcome (chat_turn js (Some text) st w) = Some (KeyError (tc_name tc)) \<and>
       world (chat_turn js (Some text) st w) = w2)"
proof -
  have ne: "tool_calls first \<noteq> []" using assms(3) by simp
  have "tc \<in> set (tool_calls first)" using assms(3) by simp
  from run_tool_calls_missing [where reg = "tool_by_name st", OF this assms(4)]
  obtain e where "fst (run_tool_calls js (tool_by_name st) (tool_calls first) [] w1) = Inl e"
    by blast
  then have a: "(\<exists>e. outcome (chat_turn js (Some text) st w) = Some e) \<and>
    history (session (chat_turn js (Some text) st w)) =
      history st @ [HumanMessage text, AIMessage first]"
    by (auto simp: chat_turn_tools [OF assms(1,2) ne] split: prod.splits sum.splits)
  have b: "outcome (chat_turn js (Some text) st w) = Some (KeyError (tc_name tc)) \<and>
       world (chat_turn js (Some text) st w) = w2"
    if "run_tool_calls js (tool_by_name st) pre [] w1 = (Inr ms, w2)" for ms w2
    using that assms(4)
    by (simp add: chat_turn_tools [OF assms(1,2) ne] assms(3) run_tool_calls_append)
  from a b show ?thesis by blast
qed

theorem unknown_tool_raises_key_error_witness:
  "outcome (chat_turn example_json (Some ''add, then fly'')
      (example_session (requesting [call_add, call_moon, call_divide]) (answering ''done'' [])) [])
     = Some (KeyError ''fly_to_moon'') \<and>
   history (session (chat_turn example_json (Some ''add, then fly'')
      (example_session (requesting [call_add, call_moon, call_divide]) (answering ''done'' [])) []))
     = [SystemMessage SYSTEM_PROMPT, HumanMessage ''add, then fly'',
        AIMessage \<lparr>content = [], tool_calls = [call_add, call_moon, call_divide]\<rparr>] \<and>
   world (chat_turn example_json (Some ''add, then fly'')
      (example_session (requesting [call_add, call_moon, call_divide]) (answering ''done'' [])) [])
     = [(''add'', tc_args call_add)]"
proof -
  let ?st = "example_session (requesting [call_add, call_moon, call_divide]) (answering ''done'' [])"
  let ?first = "\<lparr>content = [], tool_calls = [call_add, call_moon, call_divide]\<rparr>"
  have h1: "''add, then fly'' \<noteq> []" by simp
  have h2: "llm_with_tools ?st (history ?st @ [HumanMessage ''add, then fly'']) [] = (Inr ?first, [])"
    by (simp add: example_defs)
  have h3: "tool_calls ?first = [call_add] @ call_moon # [call_divide]" by simp
  have h4: "tool_by_name ?st (tc_name call_moon) = None"
    by (simp add: example_defs)
  have h5: "run_tool_calls example_json (tool_by_name ?st) [call_add] [] []
     = (Inr [ToolMessage ''a'' ''42.0''], [(''add'', tc_args call_add)])"
    by (simp add: example_defs)
  note T = unknown_tool_raises_key_error [OF h1 h2 h3 h4, of example_json]
  from T have "history (session (chat_turn example_json (Some ''add, then fly'') ?st [])) =
      history ?st @ [HumanMessage ''add, then fly'', AIMessage ?first]" by blast
  moreover from T h5 have "outcome (chat_turn example_json (Some ''add, then fly'') ?st [])
      = Some (KeyError (tc_name call_moon)) \<and>
     world (chat_turn example_json (Some ''add, then fly'') ?st []) = [(''add'', tc_args call_add)]"
    by blast
  ultimately show ?thesis by (simp add: example_defs)
qed

section \<open>A tool invocation that raises\<close>

text \<open>
  Against claim C3 as stated. The model requests \<^verbatim>\<open>divide\<close> with a zero divisor and then
  \<^verbatim>\<open>add\<close>. The exception of \<^verbatim>\<open>divide\<close> ends the handler: the log of invocations holds
  \<^verbatim>\<open>divide\<close> alone, so \<^verbatim>\<open>add\<close> was never invoked, and the history has neither a tool
  message nor a final answer.
\<close>

theorem tool_failure_aborts_counterexample:
  "chat_turn example_json (Some ''divide, then add'')
      (example_session (requesting [call_divide, call_add]) (answering ''done'' [])) []
   = \<lparr>outcome = Some (Raised ''Division by zero is not allowed''),
      session = (example_session (requesting [call_divide, call_add]) (answering ''done'' []))
        \<lparr>history := [SystemMessage SYSTEM_PROMPT, HumanMessage ''divide, then add'',
           AIMessage \<lparr>content = [], tool_calls = [call_divide, call_add]\<rparr>]\<rparr>,
      world = [(''divide'', PDict [(''a'', PInt 1), (''b'', PInt 0)])],
      drawn = [(''user'', ''divide, then add'')]\<rparr>"
  by (simp add: chat_turn_def example_defs)

text \<open>
  Claim C3, amended. An exception raised by a tool invocation is not caught: the
  handler ends with that exception. The calls requested after the failing one are not
  invoked (the world is as the failing call left it), no tool message is appended (the
  results of the calls before it are dropped with the local list), and no final answer
  is appended or drawn: the history gains the user message and the assistant message
  that carries the calls, and nothing else.
\<close>

theorem tool_failure_propagates:
  assumes "text \<noteq> []"
    and "llm_with_tools st (history st @ [HumanMessage text]) w = (Inr first, w1)"
    and "tool_calls first = pre @ tc # post"
    and "run_tool_calls js (tool_by_name st) pre [] w1 = (Inr ms, w2)"
    and "tool_by_name st (tc_name tc) = Some t"
    and "ainvoke t (prepare_args js tc) w2 = (Inl e, w3)"
  shows "chat_turn js (Some text) st w =
     \<lparr>outcome = Some e,
      session = st\<lparr>history := history st @ [HumanMessage text, AIMessage first]\<rparr>,
      world = w3,
      drawn = [(''user'', text)]\<rparr>"
proof -
  have ne: "tool_calls first \<noteq> []" using assms(3) by simp
  show ?thesis
    using assms(4,5,6)
    by (simp add: chat_turn_tools [OF assms(1,2) ne] assms(3) run_tool_calls_append)
qed

theorem tool_failure_propagates_witness:
  "chat_turn example_json (Some ''add, divide, add'')
      (example_session (requesting [call_add, call_divide, call_add]) (answering ''done'' [])) []
   = \<lparr>outcome = Some (Raised ''Division by zero is not allowed''),
      session = (example_session (requesting [call_add, call_divide, call_add]) (answering ''done'' []))
        \<lparr>history := [SystemMessage SYSTEM_PROMPT, HumanMessage ''add, divide, add'',
           AIMessage \<lparr>content = [], tool_calls = [call_add, call_divide, call_add]\<rparr>]\<rparr>,
      world = [(''add'', tc_args call_add), (''divide'', tc_args call_divide)],
      drawn = [(''user'', ''add, divide, add'')]\<rparr>"
proof -
  let ?st = "example_session (requesting [call_add, call_divide, call_add]) (answering ''done'' [])"
  let ?first = "\<lparr>content = [], tool_calls = [call_add, call_divide, call_add]\<rparr>"
  have h1: "''add, divide, add'' \<noteq> []" by simp
  have h2: "llm_with_tools ?st (history ?st @ [HumanMessage ''add, divide, add'']) [] = (Inr ?first, [])"
    by (simp add: example_defs)
  have h3: "tool_calls ?first = [call_add] @ call_divide # [call_add]" by simp
  have h4: "run_tool_calls example_json (tool_by_name ?st) [call_add] [] []
     = (Inr [ToolMessage ''a'' ''42.0''], [(''add'', tc_args call_add)])"
    by (simp add: example_defs)
  have h5: "tool_by_name ?st (tc_name call_divide) = Some divide_tool"
    by (simp add: example_defs)
  have h6: "ainvoke divide_tool (prepare_args example_json call_divide) [(''add'', tc_args call_add)]
     = (Inl (Raised ''Division by zero is not allowed''),
        [(''add'', tc_args call_add), (''divide'', tc_args call_divide)])"
    by (simp add: example_defs)
  from tool_failure_propagates [OF h1 h2 h3 h4 h5 h6]
  show ?thesis by (simp add: example_defs)
qed

section \<open>Arguments given as a string\<close>

text \<open>
  Against claim C6 as stated. The arguments of the call are the empty string, which
  is not JSON. The empty string is false in Python, so \<^verbatim>\<open>tc.get("args") or {}\<close> replaces
  it by the empty dictionary before the test for a string: the tool receives \<open>PDict []\<close>
  and not the string.
\<close>

theorem empty_string_args_counterexample:
  "loads example_json [] = None \<and>
   run_tool_calls example_json (dict_by_name Map.empty example_tools) [call_echo (PStr [])] [] []
     = (Inr [ToolMessage ''e'' ''null''], [(''echo'', PDict [])])"
  by (simp add: example_defs)

text \<open>
  Claim C6, amended. When the arguments of a requested call are a string that is not
  empty and the tool is registered, the loop gives the string to \<^verbatim>\<open>json.loads\<close> before
  it invokes the tool: the tool is invoked with the parsed value when parsing
  succeeds, and with the string itself, unchanged, when parsing fails.
\<close>

theorem string_args_parsed_or_raw:
  assumes "tc_args tc = PStr s"
    and "s \<noteq> []"
    and "reg (tc_name tc) = Some t"
  shows "prepare_args js tc = (case loads js s of Some v \<Rightarrow> v | None \<Rightarrow> PStr s) \<and>
    run_tool_calls js reg (tc # tcs) tool_msgs w =
      (case ainvoke t (case loads js s of Some v \<Rightarrow> v | None \<Rightarrow> PStr s) w of
         (Inl e, w') \<Rightarrow> (Inl e, w')
       | (Inr res, w') \<Rightarrow>
           run_tool_calls js reg tcs (tool_msgs @ [ToolMessage (tc_id tc) (dumps js res)]) w')"
  using assms by (simp add: prepare_args_def py_or_def)

theorem string_args_parsed_or_raw_witness:
  "run_tool_calls example_json (dict_by_name Map.empty example_tools)
     [call_echo (PStr ''[12, 30]''), call_echo (PStr ''twelve'')] [] []
   = (Inr [ToolMessage ''e'' ''[12, 30]'', ToolMessage ''e'' ''null''],
      [(''echo'', PList [PInt 12, PInt 30]), (''echo'', PStr ''twelve'')])"
proof -
  let ?reg = "dict_by_name Map.empty example_tools"
  have r: "?reg (tc_name (call_echo a)) = Some echo_tool" for a
    by (simp add: example_defs)
  have a1: "tc_args (call_echo (PStr ''[12, 30]'')) = PStr ''[12, 30]''"
    and a2: "tc_args (call_echo (PStr ''twelve'')) = PStr ''twelve''"
    by (simp_all add: call_echo_def)
  have n1: "''[12, 30]'' \<noteq> []" and n2: "''twelve'' \<noteq> []" by simp_all
  note T1 = string_args_parsed_or_raw [where reg = "?reg", OF a1 n1 r,
      of example_json "[call_echo (PStr ''twelve'')]" "[]" "[]"]
  note T2 = string_args_parsed_or_raw [where reg = "?reg", OF a2 n2 r, of example_json "[]"
      "[ToolMessage ''e'' ''[12, 30]'']" "[(''echo'', PList [PInt 12, PInt 30])]"]
  from T1 T2 show ?thesis
    by (simp add: example_defs)
qed

end
